theory Spec2Isabelle
  imports Main
begin

section \<open>Data model (models/User.js)\<close>

text \<open>
  The public projection \<open>{id, username, email}\<close> that \<open>User.create\<close>, \<open>User.getAll\<close>, the
  login handler and the auth middleware build, and the stored \<open>User\<close> object, which has
  the same three fields followed by \<open>password\<close> (the bcrypt digest) and \<open>refreshTokens\<close>.
  The field \<open>id\<close> is written \<open>id'\<close> (HOL has a constant \<open>id\<close>). Ids are JavaScript
  numbers holding integers (\<open>users.length + 1\<close>), modelled as \<open>int\<close>.
\<close>

record public_user =
  id' :: int
  username :: string
  email :: string

record user = public_user +
  password :: string
  refreshTokens :: "string list"

text \<open>The module-level array \<open>const users = []\<close> is the store, passed explicitly.\<close>

type_synonym users = "user list"

text \<open>The public projection written out as the object literal of the source.\<close>

definition public_of :: "user \<Rightarrow> public_user" where
  "public_of u = \<lparr>id' = id' u, username = username u, email = email u\<rparr>"

section \<open>External libraries and configuration\<close>

text \<open>
  \<open>jsonwebtoken\<close> and \<open>bcrypt\<close> are external packages; they are parameters of the model.
  \<open>jwt.sign({userId}, secret, {expiresIn})\<close> reads the clock, so the clock reading is an
  argument; it throws (here \<open>None\<close>) for instance when the secret is undefined. The
  code passes no nonce and no token id, so the token is determined by the payload, the
  secret, the options and the clock reading (\<open>iat\<close>, in whole seconds).
  \<open>jwt.verify(token, secret)\<close> returns the decoded payload, of which the code reads
  only \<open>userId\<close>, or throws one of the package's three errors.
  \<open>bcrypt.compare(data, hash)\<close> is handed the password field of the login body as it
  came, whatever JSON value that is; its promise either resolves to a boolean or
  rejects (here \<open>None\<close>), as it does for data that is not a string.
\<close>

datatype jwt_error = TokenExpiredError | JsonWebTokenError | NotBeforeError

text \<open>
  A field of the JSON body of a login request, as far as the handler can tell values
  apart: a string; a value that is falsy without being a string (the field absent,
  \<open>null\<close>, \<open>false\<close>, \<open>0\<close>); or a truthy value that is not a string (another number,
  \<open>true\<close>, an array, an object).
\<close>

datatype body_value = Missing | Str string | NonString

record token_config =
  secret :: "string option"
  expiresIn :: string

text \<open>config/jwt.js: the secrets come from the process environment and may be undefined.\<close>

record jwt_config =
  accessToken :: token_config
  refreshToken :: token_config

record env =
  jwtConfig :: jwt_config
  jwt_sign :: "int \<Rightarrow> string option \<Rightarrow> string \<Rightarrow> nat \<Rightarrow> string option"
  jwt_verify :: "string \<Rightarrow> string option \<Rightarrow> nat \<Rightarrow> jwt_error + int"
  bcrypt_hash :: "string \<Rightarrow> string"
  bcrypt_compare :: "body_value \<Rightarrow> string \<Rightarrow> bool option"

section \<open>The credential store (class User)\<close>

datatype error = UserAlreadyExists

text \<open>
  \<open>users.find(...)\<close> returns the first matching object; a later mutation of that object
  is a write at the position of the first match.
\<close>

fun write_first :: "('a \<Rightarrow> bool) \<Rightarrow> 'a \<Rightarrow> 'a list \<Rightarrow> 'a list" where
  "write_first P y [] = []"
| "write_first P y (x # xs) = (if P x then y # xs else x # write_first P y xs)"

text \<open>
  \<open>User.create\<close> is an async function in two stretches. The first runs the duplicate
  check and either throws or reaches \<open>await bcrypt.hash(password, 10)\<close>, where the call
  is suspended and other requests are served. The second, when the hash is there, reads
  \<open>users.length\<close>, builds the user and pushes it; the check is not made again.
\<close>

datatype suspended = AwaitingHash string string string

definition create_check :: "users \<Rightarrow> string \<Rightarrow> string \<Rightarrow> string \<Rightarrow> error + suspended" where
  "create_check users uname mail pw =
     (case List.find (\<lambda>u. username u = uname \<or> email u = mail) users of
        Some existingUser \<Rightarrow> Inl UserAlreadyExists
      | None \<Rightarrow> Inr (AwaitingHash uname mail pw))"

fun create_resume :: "env \<Rightarrow> users \<Rightarrow> suspended \<Rightarrow> public_user \<times> users" where
  "create_resume e users (AwaitingHash uname mail pw) =
     (let hashedPassword = bcrypt_hash e pw;
          i = int (length users) + 1;
          u = \<lparr>id' = i, username = uname, email = mail,
               password = hashedPassword, refreshTokens = []\<rparr>
      in (public_of u, users @ [u]))"

text \<open>A call of \<open>User.create\<close> during whose suspension nothing else touches the store.\<close>

definition create :: "env \<Rightarrow> users \<Rightarrow> string \<Rightarrow> string \<Rightarrow> string
    \<Rightarrow> (error + public_user) \<times> users" where
  "create e users uname mail pw =
     (case create_check users uname mail pw of
        Inl err \<Rightarrow> (Inl err, users)
      | Inr s \<Rightarrow> (case create_resume e users s of (p, users') \<Rightarrow> (Inr p, users')))"

definition findByCredentials :: "users \<Rightarrow> string \<Rightarrow> user option" where
  "findByCredentials users usernameOrEmail =
     List.find (\<lambda>u. username u = usernameOrEmail \<or> email u = usernameOrEmail) users"

text \<open>\<open>parseInt\<close> is the identity on the integer ids the payloads carry.\<close>

definition findById :: "users \<Rightarrow> int \<Rightarrow> user option" where
  "findById users i = List.find (\<lambda>u. id' u = i) users"

definition comparePassword :: "env \<Rightarrow> body_value \<Rightarrow> string \<Rightarrow> bool option" where
  "comparePassword e plainPassword hashedPassword = bcrypt_compare e plainPassword hashedPassword"

definition addRefreshToken :: "users \<Rightarrow> int \<Rightarrow> string \<Rightarrow> users" where
  "addRefreshToken users userId token =
     (case findById users userId of
        None \<Rightarrow> users
      | Some u \<Rightarrow>
          (let shifted = (if 5 \<le> length (refreshTokens u)
                          then tl (refreshTokens u) else refreshTokens u)
           in write_first (\<lambda>u. id' u = userId)
                (u\<lparr>refreshTokens := shifted @ [token]\<rparr>) users))"

definition removeRefreshToken :: "users \<Rightarrow> int \<Rightarrow> string \<Rightarrow> users" where
  "removeRefreshToken users userId token =
     (case findById users userId of
        None \<Rightarrow> users
      | Some u \<Rightarrow>
          write_first (\<lambda>u. id' u = userId)
            (u\<lparr>refreshTokens := filter (\<lambda>t. t \<noteq> token) (refreshTokens u)\<rparr>) users)"

definition hasRefreshToken :: "users \<Rightarrow> int \<Rightarrow> string \<Rightarrow> bool" where
  "hasRefreshToken users userId token =
     (case findById users userId of
        Some u \<Rightarrow> token \<in> set (refreshTokens u)
      | None \<Rightarrow> False)"

definition getAll :: "users \<Rightarrow> public_user list" where
  "getAll users = map public_of users"

section \<open>Token utilities (utils/tokenUtils.js)\<close>

text \<open>The object \<open>{valid, expired, userId}\<close> both verifiers return; \<open>null\<close> is \<open>None\<close>.\<close>

record verify_result =
  valid :: bool
  expired :: bool
  userId :: "int option"

definition generateAccessToken :: "env \<Rightarrow> int \<Rightarrow> nat \<Rightarrow> string option" where
  "generateAccessToken e uid now =
     jwt_sign e uid (secret (accessToken (jwtConfig e))) (expiresIn (accessToken (jwtConfig e))) now"

text \<open>Signing comes first: when it throws, the store is not touched.\<close>

definition generateRefreshToken :: "env \<Rightarrow> users \<Rightarrow> int \<Rightarrow> nat \<Rightarrow> string option \<times> users" where
  "generateRefreshToken e users uid now =
     (case jwt_sign e uid (secret (refreshToken (jwtConfig e)))
             (expiresIn (refreshToken (jwtConfig e))) now of
        None \<Rightarrow> (None, users)
      | Some t \<Rightarrow> (Some t, addRefreshToken users uid t))"

definition verifyAccessToken :: "env \<Rightarrow> string \<Rightarrow> nat \<Rightarrow> verify_result" where
  "verifyAccessToken e token now =
     (case jwt_verify e token (secret (accessToken (jwtConfig e))) now of
        Inr decoded \<Rightarrow> \<lparr>valid = True, expired = False, userId = Some decoded\<rparr>
      | Inl err \<Rightarrow> \<lparr>valid = False, expired = (err = TokenExpiredError), userId = None\<rparr>)"

definition verifyRefreshToken :: "env \<Rightarrow> users \<Rightarrow> string \<Rightarrow> nat \<Rightarrow> verify_result" where
  "verifyRefreshToken e users token now =
     (case jwt_verify e token (secret (refreshToken (jwtConfig e))) now of
        Inr decoded \<Rightarrow>
          (if \<not> hasRefreshToken users decoded token
           then \<lparr>valid = False, expired = False, userId = None\<rparr>
           else \<lparr>valid = True, expired = False, userId = Some decoded\<rparr>)
      | Inl err \<Rightarrow> \<lparr>valid = False, expired = (err = TokenExpiredError), userId = None\<rparr>)"

section \<open>HTTP responses\<close>

text \<open>
  What \<open>res.status(code).json({status, message, data})\<close> sends. For a token field or a
  header, a string or absent, \<open>!x\<close> holds when it is absent and when it is the empty
  string (\<open>falsy\<close>); for a field of the login body, \<open>falsy_value\<close>.
\<close>

datatype res_data =
    NoData
  | AccessTokenData string
  | LoginData string string public_user

record response =
  statusCode :: nat
  status :: string
  message :: "string option"
  data :: res_data

definition error_response :: "nat \<Rightarrow> string \<Rightarrow> response" where
  "error_response code msg =
     \<lparr>statusCode = code, status = ''error'', message = Some msg, data = NoData\<rparr>"

definition falsy :: "string option \<Rightarrow> bool" where
  "falsy x = (case x of None \<Rightarrow> True | Some s \<Rightarrow> s = [])"

fun falsy_value :: "body_value \<Rightarrow> bool" where
  "falsy_value Missing = True"
| "falsy_value (Str s) = (s = [])"
| "falsy_value NonString = False"

section \<open>Session handlers (routes/auth/index.js)\<close>

text \<open>
  Each handler takes the store and the clock reading of the request and returns the
  response with the store it leaves. The \<open>catch\<close> branch (status 500) is reached when
  \<open>jwt.sign\<close> throws and, in \<open>login\<close>, when the promise of \<open>bcrypt.compare\<close> rejects.
  In \<open>refresh_token\<close> and \<open>logout\<close>, past the presence check the token is a non-empty
  string, so \<open>the\<close> is only ever applied to \<open>Some\<close>. The clock is read once per request
  (\<open>iat\<close> and \<open>exp\<close> are whole seconds).

  In \<open>login\<close>, \<open>user.username === usernameOrEmail\<close> holds of no stored user when the
  field is not a string. The handler is suspended at \<open>await User.comparePassword\<close>; what
  it does afterwards depends on the store only through \<open>addRefreshToken\<close>, applied to the
  store as it is then, so the handler is taken at the moment it resumes.
\<close>

definition login :: "env \<Rightarrow> users \<Rightarrow> body_value \<Rightarrow> body_value \<Rightarrow> nat
    \<Rightarrow> response \<times> users" where
  "login e users usernameOrEmail pw now =
     (if falsy_value usernameOrEmail \<or> falsy_value pw
      then (error_response 400 ''Please provide username/email and password'', users)
      else
        (case (case usernameOrEmail of
                 Str s \<Rightarrow> findByCredentials users s
               | _ \<Rightarrow> None) of
           None \<Rightarrow> (error_response 401 ''Invalid credentials'', users)
         | Some u \<Rightarrow>
             (case comparePassword e pw (password u) of
                None \<Rightarrow> (error_response 500 ''Internal server error'', users)
              | Some isMatch \<Rightarrow>
                  (if \<not> isMatch
                   then (error_response 401 ''Invalid credentials'', users)
                   else
                     (case generateAccessToken e (id' u) now of
                        None \<Rightarrow> (error_response 500 ''Internal server error'', users)
                      | Some at \<Rightarrow>
                          (case generateRefreshToken e users (id' u) now of
                             (None, users') \<Rightarrow>
                               (error_response 500 ''Internal server error'', users')
                           | (Some rt, users') \<Rightarrow>
                               (\<lparr>statusCode = 200, status = ''success'',
                                 message = Some ''Login successful'',
                                 data = LoginData at rt (public_of u)\<rparr>, users')))))))"

definition refresh_token :: "env \<Rightarrow> users \<Rightarrow> string option \<Rightarrow> nat \<Rightarrow> response \<times> users" where
  "refresh_token e users rt now =
     (if falsy rt
      then (error_response 400 ''Refresh token is required'', users)
      else
        (let r = verifyRefreshToken e users (the rt) now in
         if \<not> valid r
         then (if expired r
               then (error_response 401 ''Refresh token has expired. Please login again.'', users)
               else (error_response 401 ''Invalid refresh token'', users))
         else
           (case userId r of
              None \<Rightarrow> (error_response 500 ''Internal server error'', users)
            | Some uid \<Rightarrow>
                (case generateAccessToken e uid now of
                   None \<Rightarrow> (error_response 500 ''Internal server error'', users)
                 | Some at \<Rightarrow>
                     (\<lparr>statusCode = 200, status = ''success'', message = None,
                       data = AccessTokenData at\<rparr>, users)))))"

text \<open>
  In \<open>refresh_token\<close> above, \<open>userId\<close> is \<open>null\<close> only when \<open>valid\<close> is false (lemma
  \<open>verifyRefreshToken_valid\<close> below), so its \<open>None\<close> branch is never taken.
  In \<open>logout\<close>, \<open>valid && userId\<close>: the number 0 is falsy, as \<open>null\<close> is.
\<close>

definition logout :: "env \<Rightarrow> users \<Rightarrow> string option \<Rightarrow> nat \<Rightarrow> response \<times> users" where
  "logout e users rt now =
     (if falsy rt
      then (error_response 400 ''Refresh token is required'', users)
      else
        (let r = verifyRefreshToken e users (the rt) now;
             users' = (case userId r of
                         Some uid \<Rightarrow> (if valid r \<and> uid \<noteq> 0
                                      then removeRefreshToken users uid (the rt) else users)
                       | None \<Rightarrow> users)
         in (\<lparr>statusCode = 200, status = ''success'',
               message = Some ''Logged out successfully'', data = NoData\<rparr>, users')))"

section \<open>The auth middleware (middleware/auth.js)\<close>

text \<open>\<open>s.split(' ')\<close>: the pieces between single spaces, empty pieces kept.\<close>

fun split_space :: "string \<Rightarrow> string list" where
  "split_space [] = [[]]"
| "split_space (c # cs) =
     (if c = CHR '' '' then [] # split_space cs
      else (case split_space cs of
              p # ps \<Rightarrow> (c # p) # ps
            | [] \<Rightarrow> [[c]]))"

definition startsWith :: "string \<Rightarrow> string \<Rightarrow> bool" where
  "startsWith s p = (take (length p) s = p)"

text \<open>The middleware either answers the request or calls \<open>next()\<close> with \<open>req.user\<close> set.\<close>

datatype auth_outcome = Responded response | Next public_user

text \<open>
  \<open>authHeader.split(' ')[1]\<close> is \<open>undefined\<close> when there is no second piece;
  \<open>jwt.verify(undefined, ...)\<close> throws a \<open>JsonWebTokenError\<close>.
\<close>

definition authenticate :: "env \<Rightarrow> users \<Rightarrow> string option \<Rightarrow> nat \<Rightarrow> auth_outcome" where
  "authenticate e users authHeader now =
     (if falsy authHeader \<or> \<not> startsWith (the authHeader) ''Bearer ''
      then Responded (error_response 401 ''Authentication required. No token provided.'')
      else
        (let pieces = split_space (the authHeader);
             r = (if 1 < length pieces then verifyAccessToken e (pieces ! 1) now
                  else \<lparr>valid = False, expired = False, userId = None\<rparr>)
         in if \<not> valid r
            then (if expired r
                  then Responded (error_response 401
                         ''Token has expired. Please refresh your token.'')
                  else Responded (error_response 401 ''Invalid token.''))
            else
              (case userId r of
                 None \<Rightarrow> Responded (error_response 401 ''User not found.'')
               | Some uid \<Rightarrow>
                   (case findById users uid of
                      None \<Rightarrow> Responded (error_response 401 ''User not found.'')
                    | Some u \<Rightarrow> Next (public_of u)))))"

section \<open>Runs of the store\<close>

text \<open>
  Everything that writes the store: the mutating methods of \<open>User\<close>,
  \<open>generateRefreshToken\<close>, and the three session handlers. A call of \<open>User.create\<close> (made
  by the register handler once its validation has passed) appears either whole
  (\<open>Create\<close>), or as its two stretches with other operations in between: \<open>CreateCall\<close>
  runs the check and, when it passes, joins the suspended calls; \<open>CreateResume k\<close> lets
  the \<open>k\<close>-th suspended call finish. A run starts from the empty array with no call
  suspended.
\<close>

datatype op =
    Create string string string
  | CreateCall string string string
  | CreateResume nat
  | AddRefreshToken int string
  | RemoveRefreshToken int string
  | GenerateRefreshToken int nat
  | Login body_value body_value nat
  | RefreshToken "string option" nat
  | Logout "string option" nat

fun exec :: "env \<Rightarrow> users \<times> suspended list \<Rightarrow> op \<Rightarrow> users \<times> suspended list" where
  "exec e (us, ss) (Create uname mail pw) = (snd (create e us uname mail pw), ss)"
| "exec e (us, ss) (CreateCall uname mail pw) =
     (case create_check us uname mail pw of
        Inl err \<Rightarrow> (us, ss)
      | Inr s \<Rightarrow> (us, ss @ [s]))"
| "exec e (us, ss) (CreateResume k) =
     (if k < length ss
      then (snd (create_resume e us (ss ! k)), take k ss @ drop (Suc k) ss)
      else (us, ss))"
| "exec e (us, ss) (AddRefreshToken i t) = (addRefreshToken us i t, ss)"
| "exec e (us, ss) (RemoveRefreshToken i t) = (removeRefreshToken us i t, ss)"
| "exec e (us, ss) (GenerateRefreshToken i now) = (snd (generateRefreshToken e us i now), ss)"
| "exec e (us, ss) (Login ue pw now) = (snd (login e us ue pw now), ss)"
| "exec e (us, ss) (RefreshToken rt now) = (snd (refresh_token e us rt now), ss)"
| "exec e (us, ss) (Logout rt now) = (snd (logout e us rt now), ss)"

definition run :: "env \<Rightarrow> op list \<Rightarrow> users" where
  "run e ops = fst (foldl (exec e) ([], []) ops)"

text \<open>Ids are handed out as \<open>users.length + 1\<close> and no user is ever deleted.\<close>

definition ids_sequential :: "users \<Rightarrow> bool" where
  "ids_sequential users = (map id' users = map int [1..<Suc (length users)])"

section \<open>The two configured secrets and the token package\<close>


section \<open>The auth guard as a state machine\<close>

datatype rejection = NoToken | TokenExpired | TokenInvalid | UserNotFound

datatype guard_result = Authenticated public_user | Rejected rejection

text \<open>
  The four steps of the guard, for a given way of taking the credential out of the
  header (\<open>None\<close> when the header is absent or malformed).
\<close>

definition auth_guard :: "(string option \<Rightarrow> string option) \<Rightarrow> env \<Rightarrow> users \<Rightarrow> string option
    \<Rightarrow> nat \<Rightarrow> guard_result" where
  "auth_guard credential e users h now =
     (case credential h of
        None \<Rightarrow> Rejected NoToken
      | Some tok \<Rightarrow>
          (case jwt_verify e tok (secret (accessToken (jwtConfig e))) now of
             Inl TokenExpiredError \<Rightarrow> Rejected TokenExpired
           | Inl _ \<Rightarrow> Rejected TokenInvalid
           | Inr uid \<Rightarrow>
               (case List.find (\<lambda>u. id' u = uid) users of
                  None \<Rightarrow> Rejected UserNotFound
                | Some u \<Rightarrow>
                    Authenticated \<lparr>id' = id' u, username = username u, email = email u\<rparr>)))"

text \<open>
  The credential as the specification words it, by the convention
  \<open>Authorization: Bearer <token>\<close>: the header is the word \<open>Bearer\<close>, a space and the
  token, and the token is all that follows. Any other header is malformed.
\<close>

definition bearer_credential :: "string option \<Rightarrow> string option" where
  "bearer_credential h =
     (case h of
        None \<Rightarrow> None
      | Some s \<Rightarrow> (if take 7 s = ''Bearer '' then Some (drop 7 s) else None))"

text \<open>
  The credential as the middleware takes it: of a header that begins with \<open>Bearer\<close> and
  a space, what lies between that space and the next one; the rest of the header is
  not looked at.
\<close>

definition second_piece :: "string option \<Rightarrow> string option" where
  "second_piece h =
     (case h of
        None \<Rightarrow> None
      | Some s \<Rightarrow>
          (if take 7 s = ''Bearer ''
           then Some (takeWhile (\<lambda>c. c \<noteq> CHR '' '') (drop 7 s))
           else None))"

text \<open>How the middleware reports each terminal state: status 401 with its own message.\<close>

fun rejection_message :: "rejection \<Rightarrow> string" where
  "rejection_message NoToken = ''Authentication required. No token provided.''"
| "rejection_message TokenExpired = ''Token has expired. Please refresh your token.''"
| "rejection_message TokenInvalid = ''Invalid token.''"
| "rejection_message UserNotFound = ''User not found.''"

fun outcome_of :: "guard_result \<Rightarrow> auth_outcome" where
  "outcome_of (Authenticated p) = Next p"
| "outcome_of (Rejected r) = Responded (error_response 401 (rejection_message r))"

section \<open>A small instance of the packages, for running the model\<close>

text \<open>
  The instance prepares a secret as HMAC does: a secret longer than the block (here 8
  characters) is replaced by its digest (here its first 4 characters). A token is a run
  of \<open>u\<close>s (the subject id), a run of \<open>e\<close>s (the expiry, in clock ticks), a dot and the
  prepared secret. Verification checks the secret first, then the expiry (expired when
  the clock has reached it). The digest of a password is the password behind a \<open>#\<close>,
  and comparing rejects data that is not a string.
\<close>

definition ref_span :: "string \<Rightarrow> nat" where
  "ref_span ttl = (if ttl = ''15m'' then 1 else if ttl = ''7d'' then 4 else 0)"

definition hmac_key :: "string \<Rightarrow> string" where
  "hmac_key k = (if 8 < length k then take 4 k else k)"

definition ref_sign :: "int \<Rightarrow> string option \<Rightarrow> string \<Rightarrow> nat \<Rightarrow> string option" where
  "ref_sign uid sec ttl now =
     (case sec of
        None \<Rightarrow> None
      | Some k \<Rightarrow>
          (if uid < 0 then None
           else Some (replicate (nat uid) CHR ''u'' @ replicate (now + ref_span ttl) CHR ''e''
                      @ CHR ''.'' # hmac_key k)))"

definition ref_verify :: "string \<Rightarrow> string option \<Rightarrow> nat \<Rightarrow> jwt_error + int" where
  "ref_verify tok sec now =
     (case sec of
        None \<Rightarrow> Inl JsonWebTokenError
      | Some k \<Rightarrow>
          (let body = takeWhile (\<lambda>c. c \<noteq> CHR ''.'') tok;
               sig = dropWhile (\<lambda>c. c \<noteq> CHR ''.'') tok
           in if sig \<noteq> CHR ''.'' # hmac_key k then Inl JsonWebTokenError
              else if count_list body CHR ''e'' \<le> now then Inl TokenExpiredError
              else Inr (int (count_list body CHR ''u''))))"

fun ref_compare :: "body_value \<Rightarrow> string \<Rightarrow> bool option" where
  "ref_compare (Str p) h = Some (h = CHR ''#'' # p)"
| "ref_compare Missing h = None"
| "ref_compare NonString h = None"

definition ref_env :: env where
  "ref_env =
     \<lparr>jwtConfig = \<lparr>accessToken = \<lparr>secret = Some ''A'', expiresIn = ''15m''\<rparr>,
                   refreshToken = \<lparr>secret = Some ''R'', expiresIn = ''7d''\<rparr>\<rparr>,
      jwt_sign = ref_sign,
      jwt_verify = ref_verify,
      bcrypt_hash = (\<lambda>p. CHR ''#'' # p),
      bcrypt_compare = ref_compare\<rparr>"


text \<open>One registered user, before login, after login at tick 0, and after logout.\<close>

definition alice0 :: users where
  "alice0 = run ref_env [Create ''alice'' ''a@x.com'' ''secret1'']"

definition alice1 :: users where
  "alice1 = run ref_env [Create ''alice'' ''a@x.com'' ''secret1'',
                         Login (Str ''alice'') (Str ''secret1'') 0]"

definition alice2 :: users where
  "alice2 = run ref_env [Create ''alice'' ''a@x.com'' ''secret1'',
                         Login (Str ''alice'') (Str ''secret1'') 0,
                         Logout (Some ''ueeee.R'') 0]"

text \<open>
  Two registrations of the same username and email that overlap: both are called
  before either resumes.
\<close>

definition bob_twice :: users where
  "bob_twice = run ref_env [CreateCall ''bob'' ''b@x.com'' ''secret1'',
                            CreateCall ''bob'' ''b@x.com'' ''secret2'',
                            CreateResume 0,
                            CreateResume 0]"

section \<open>Auxiliary facts\<close>

subsection \<open>Lists\<close>

lemma find_write_first_same:
  "P y \<Longrightarrow> List.find P xs = Some x \<Longrightarrow> List.find P (write_first P y xs) = Some y"
  by (induction xs) (auto split: if_splits)

lemma write_first_same:
  "List.find P xs = Some x \<Longrightarrow> write_first P x xs = xs"
  by (induction xs) (auto split: if_splits)

lemma write_first_nth:
  "List.find P xs = Some x \<Longrightarrow>
     \<exists>k<length xs. xs ! k = x \<and> (\<forall>j<k. \<not> P (xs ! j)) \<and> write_first P y xs = xs[k := y]"
proof (induction xs)
  case Nil
  then show ?case by simp
next
  case (Cons a xs)
  show ?case
  proof (cases "P a")
    case True
    with Cons.prems have "a = x" by simp
    with True show ?thesis by (intro exI[of _ 0]) simp
  next
    case False
    with Cons.prems have "List.find P xs = Some x" by simp
    from Cons.IH[OF this] obtain k where k: "k < length xs" "xs ! k = x"
      "\<forall>j<k. \<not> P (xs ! j)" "write_first P y xs = xs[k := y]" by blast
    have "\<forall>j<Suc k. \<not> P ((a # xs) ! j)"
      using False k(3) by (auto simp: nth_Cons split: nat.splits)
    with k False show ?thesis by (intro exI[of _ "Suc k"]) simp
  qed
qed

lemma map_write_first:
  "List.find P xs = Some x \<Longrightarrow> g y = g x \<Longrightarrow> map g (write_first P y xs) = map g xs"
  by (induction xs) (auto split: if_splits)

lemma set_write_first: "set (write_first P y xs) \<subseteq> insert y (set xs)"
  by (induction xs) auto

lemma find_Some_holds: "List.find P xs = Some x \<Longrightarrow> P x \<and> x \<in> set xs"
  by (induction xs) (auto split: if_splits)


lemma split_space_nonempty: "split_space s \<noteq> []"
  by (induction s) (auto split: list.splits)

lemma split_space_hd: "hd (split_space s) = takeWhile (\<lambda>c. c \<noteq> CHR '' '') s"
  by (induction s) (auto split: list.splits simp: split_space_nonempty)

lemma split_space_nospace:
  "CHR '' '' \<notin> set p \<Longrightarrow> split_space (p @ CHR '' '' # s) = p # split_space s"
  by (induction p) (auto split: list.splits simp: split_space_nonempty)

lemma bearer_piece:
  assumes "startsWith h ''Bearer ''"
  shows "1 < length (split_space h) \<and> split_space h ! 1 = takeWhile (\<lambda>c. c \<noteq> CHR '' '') (drop 7 h)"
proof -
  have l: "length ''Bearer '' = 7" by simp
  from assms have "take 7 h = ''Bearer ''"
    unfolding startsWith_def l .
  then have "h = ''Bearer '' @ drop 7 h"
    by (metis append_take_drop_id)
  then have h: "h = ''Bearer'' @ CHR '' '' # drop 7 h" by simp
  have "split_space h = ''Bearer'' # split_space (drop 7 h)"
    by (subst h, subst split_space_nospace) simp_all
  moreover have "split_space (drop 7 h) \<noteq> []" by (rule split_space_nonempty)
  ultimately show ?thesis
    using split_space_hd[of "drop 7 h"]
    by (cases "split_space (drop 7 h)") auto
qed

subsection \<open>The store methods\<close>

lemma findById_holds: "findById users i = Some u \<Longrightarrow> id' u = i \<and> u \<in> set users"
  unfolding findById_def by (rule find_Some_holds)


lemma addRefreshToken_None: "findById users i = None \<Longrightarrow> addRefreshToken users i t = users"
  by (simp add: addRefreshToken_def)

lemma removeRefreshToken_None: "findById users i = None \<Longrightarrow> removeRefreshToken users i t = users"
  by (simp add: removeRefreshToken_def)

lemma addRefreshToken_Some:
  "findById users i = Some u \<Longrightarrow>
     addRefreshToken users i t =
       write_first (\<lambda>u. id' u = i)
         (u\<lparr>refreshTokens := (if 5 \<le> length (refreshTokens u)
                               then tl (refreshTokens u) else refreshTokens u) @ [t]\<rparr>) users"
  by (simp add: addRefreshToken_def Let_def)

lemma removeRefreshToken_Some:
  "findById users i = Some u \<Longrightarrow>
     removeRefreshToken users i t =
       write_first (\<lambda>u. id' u = i)
         (u\<lparr>refreshTokens := filter (\<lambda>x. x \<noteq> t) (refreshTokens u)\<rparr>) users"
  by (simp add: removeRefreshToken_def)


lemma findById_removeRefreshToken:
  "findById users i = Some u \<Longrightarrow>
     findById (removeRefreshToken users i t) i =
       Some (u\<lparr>refreshTokens := filter (\<lambda>x. x \<noteq> t) (refreshTokens u)\<rparr>)"
  using findById_holds[of users i u]
  by (simp add: removeRefreshToken_Some) (simp add: findById_def find_write_first_same)

lemma map_addRefreshToken:
  assumes "\<And>u ts. g (u\<lparr>refreshTokens := ts\<rparr>) = g u"
  shows "map g (addRefreshToken users i t) = map g users"
proof (cases "findById users i")
  case None
  then show ?thesis by (simp add: addRefreshToken_None)
next
  case (Some u)
  then show ?thesis
    unfolding addRefreshToken_Some[OF Some] findById_def
    by (rule map_write_first) (rule assms)
qed

lemma map_removeRefreshToken:
  assumes "\<And>u ts. g (u\<lparr>refreshTokens := ts\<rparr>) = g u"
  shows "map g (removeRefreshToken users i t) = map g users"
proof (cases "findById users i")
  case None
  then show ?thesis by (simp add: removeRefreshToken_None)
next
  case (Some u)
  then show ?thesis
    unfolding removeRefreshToken_Some[OF Some] findById_def
    by (rule map_write_first) (rule assms)
qed

lemma hasRefreshToken_removeRefreshToken:
  "\<not> hasRefreshToken (removeRefreshToken users i t) i t"
proof (cases "findById users i")
  case None
  then show ?thesis by (simp add: removeRefreshToken_None hasRefreshToken_def)
next
  case (Some u)
  then show ?thesis
    by (simp add: hasRefreshToken_def findById_removeRefreshToken)
qed


subsection \<open>What each handler does to the store\<close>

lemma verifyRefreshToken_valid:
  "valid (verifyRefreshToken e users tok now) \<Longrightarrow>
     \<exists>uid. userId (verifyRefreshToken e users tok now) = Some uid \<and>
           jwt_verify e tok (secret (refreshToken (jwtConfig e))) now = Inr uid \<and>
           hasRefreshToken users uid tok"
  by (auto simp: verifyRefreshToken_def split: sum.splits if_splits)

lemma verifyRefreshToken_Inr:
  "jwt_verify e tok (secret (refreshToken (jwtConfig e))) now = Inr uid \<Longrightarrow>
     verifyRefreshToken e users tok now =
       (if hasRefreshToken users uid tok
        then \<lparr>valid = True, expired = False, userId = Some uid\<rparr>
        else \<lparr>valid = False, expired = False, userId = None\<rparr>)"
  by (simp add: verifyRefreshToken_def)


lemma create_check_duplicate:
  "\<exists>u\<in>set users. username u = uname \<or> email u = mail \<Longrightarrow>
     create_check users uname mail pw = Inl UserAlreadyExists"
proof -
  assume "\<exists>u\<in>set users. username u = uname \<or> email u = mail"
  then have "List.find (\<lambda>u. username u = uname \<or> email u = mail) users \<noteq> None"
    by (auto simp: find_None_iff)
  then show ?thesis by (auto simp: create_check_def)
qed

lemma snd_create_resume:
  "\<exists>uname mail h. snd (create_resume e us s) =
     us @ [\<lparr>id' = int (length us) + 1, username = uname, email = mail,
            password = h, refreshTokens = []\<rparr>]"
  by (cases s) (simp add: Let_def)

lemma snd_create:
  "snd (create e us uname mail pw) = us \<or>
   (\<exists>uname' mail' h. snd (create e us uname mail pw) =
      us @ [\<lparr>id' = int (length us) + 1, username = uname', email = mail',
             password = h, refreshTokens = []\<rparr>])"
proof (cases "create_check us uname mail pw")
  case (Inl err)
  then show ?thesis by (simp add: create_def)
next
  case (Inr s)
  then have "snd (create e us uname mail pw) = snd (create_resume e us s)"
    by (simp add: create_def split: prod.splits)
  with snd_create_resume[of e us s] show ?thesis by metis
qed

lemma snd_refresh_token: "snd (refresh_token e users rt now) = users"
  by (simp add: refresh_token_def Let_def split: option.splits)

lemma snd_generateRefreshToken:
  "snd (generateRefreshToken e users i now) = users \<or>
   (\<exists>t. snd (generateRefreshToken e users i now) = addRefreshToken users i t)"
  by (auto simp: generateRefreshToken_def split: option.splits)

lemma snd_login:
  "snd (login e users ue pw now) = users \<or>
   (\<exists>i t. snd (login e users ue pw now) = addRefreshToken users i t)"
  by (auto simp: login_def generateRefreshToken_def split: option.splits prod.splits)

lemma snd_logout:
  "snd (logout e users rt now) = users \<or>
   (\<exists>i t. snd (logout e users rt now) = removeRefreshToken users i t)"
  by (auto simp: logout_def Let_def split: option.splits)

lemma exec_cases:
  "fst (exec e st x) = fst st
   \<or> (\<exists>i t. fst (exec e st x) = addRefreshToken (fst st) i t)
   \<or> (\<exists>i t. fst (exec e st x) = removeRefreshToken (fst st) i t)
   \<or> (\<exists>uname mail h. fst (exec e st x) =
         fst st @ [\<lparr>id' = int (length (fst st)) + 1, username = uname, email = mail,
                    password = h, refreshTokens = []\<rparr>])"
proof -
  obtain us ss where st: "st = (us, ss)" by (cases st)
  show ?thesis
  proof (cases x)
    case (Create uname mail pw)
    then show ?thesis using snd_create[of e us uname mail pw] st by auto
  next
    case (CreateCall uname mail pw)
    then show ?thesis using st by (simp split: sum.splits)
  next
    case (CreateResume k)
    show ?thesis
    proof (cases "k < length ss")
      case True
      then have "fst (exec e st x) = snd (create_resume e us (ss ! k))"
        using CreateResume st by simp
      with snd_create_resume[of e us "ss ! k"] st show ?thesis by auto
    next
      case False
      then show ?thesis using CreateResume st by simp
    qed
  next
    case (AddRefreshToken i t)
    then show ?thesis using st by auto
  next
    case (RemoveRefreshToken i t)
    then show ?thesis using st by auto
  next
    case (GenerateRefreshToken i now)
    then show ?thesis using snd_generateRefreshToken[of e us i now] st by auto
  next
    case (Login ue pw now)
    then show ?thesis using snd_login[of e us ue pw now] st by auto
  next
    case (RefreshToken rt now)
    then show ?thesis using st by (simp add: snd_refresh_token)
  next
    case (Logout rt now)
    then show ?thesis using snd_logout[of e us rt now] st by auto
  qed
qed

lemma run_induct:
  assumes base: "Q []"
    and add: "\<And>us i t. Q us \<Longrightarrow> Q (addRefreshToken us i t)"
    and remove: "\<And>us i t. Q us \<Longrightarrow> Q (removeRefreshToken us i t)"
    and push: "\<And>us uname mail h. Q us \<Longrightarrow>
        Q (us @ [\<lparr>id' = int (length us) + 1, username = uname, email = mail,
                  password = h, refreshTokens = []\<rparr>])"
  shows "Q (run e ops)"
proof -
  have "Q (fst (foldl (exec e) st ops))" if "Q (fst st)" for st
    using that
  proof (induction ops arbitrary: st)
    case Nil
    then show ?case by simp
  next
    case (Cons x ops)
    have "Q (fst (exec e st x))"
      using exec_cases[of e st x] Cons.prems add remove push by metis
    then show ?case using Cons.IH by simp
  qed
  from this[of "([], [])"] base show ?thesis by (simp add: run_def)
qed

subsection \<open>Invariants of the store\<close>

lemma ids_sequential_run: "ids_sequential (run e ops)"
proof (induction rule: run_induct)
  case 1
  show ?case by (simp add: ids_sequential_def)
next
  case (2 us i t)
  have "map id' (addRefreshToken us i t) = map id' us"
    by (rule map_addRefreshToken) simp
  moreover from this have "length (addRefreshToken us i t) = length us"
    by (metis length_map)
  ultimately show ?case using 2 by (simp add: ids_sequential_def)
next
  case (3 us i t)
  have "map id' (removeRefreshToken us i t) = map id' us"
    by (rule map_removeRefreshToken) simp
  moreover from this have "length (removeRefreshToken us i t) = length us"
    by (metis length_map)
  ultimately show ?case using 3 by (simp add: ids_sequential_def)
next
  case (4 us uname mail h)
  then show ?case
    unfolding ids_sequential_def
    by (simp add: upt_Suc_append del: upt_Suc)
qed

lemma ids_sequential_no_zero: "ids_sequential users \<Longrightarrow> findById users 0 = None"
proof -
  assume a: "ids_sequential users"
  have "0 \<notin> set (map int [1..<Suc (length users)])" by auto
  with a have "0 \<notin> set (map id' users)" by (simp add: ids_sequential_def)
  then show ?thesis by (auto simp: findById_def find_None_iff)
qed

lemma tokens_bounded_run: "\<forall>u\<in>set (run e ops). length (refreshTokens u) \<le> 5"
proof (induction rule: run_induct)
  case 1
  show ?case by simp
next
  case (2 us i t)
  show ?case
  proof (cases "findById us i")
    case None
    with 2 show ?thesis by (simp add: addRefreshToken_None)
  next
    case (Some u)
    then have "u \<in> set us" by (simp add: findById_holds)
    with 2 have "length (refreshTokens u) \<le> 5" by blast
    then have "length ((if 5 \<le> length (refreshTokens u)
                 then tl (refreshTokens u) else refreshTokens u) @ [t]) \<le> 5"
      by auto
    with 2 set_write_first show ?thesis
      unfolding addRefreshToken_Some[OF Some] by fastforce
  qed
next
  case (3 us i t)
  show ?case
  proof (cases "findById us i")
    case None
    with 3 show ?thesis by (simp add: removeRefreshToken_None)
  next
    case (Some u)
    then have "u \<in> set us" by (simp add: findById_holds)
    with 3 have "length (refreshTokens u) \<le> 5" by blast
    then have "length (filter (\<lambda>x. x \<noteq> t) (refreshTokens u)) \<le> 5"
      by (meson le_trans length_filter_le)
    with 3 set_write_first show ?thesis
      unfolding removeRefreshToken_Some[OF Some] by fastforce
  qed
next
  case (4 us uname mail h)
  then show ?case by auto
qed

subsection \<open>The middleware's token\<close>

lemma startsWith_Bearer: "startsWith s ''Bearer '' = (take 7 s = ''Bearer '')"
proof -
  have "length ''Bearer '' = 7" by simp
  then show ?thesis unfolding startsWith_def by (simp only:)
qed

lemma authenticate_token:
  assumes "take 7 s = ''Bearer ''"
  shows "authenticate e users (Some s) now =
    (let r = verifyAccessToken e (takeWhile (\<lambda>c. c \<noteq> CHR '' '') (drop 7 s)) now
     in if \<not> valid r
        then (if expired r
              then Responded (error_response 401
                     ''Token has expired. Please refresh your token.'')
              else Responded (error_response 401 ''Invalid token.''))
        else (case userId r of
                None \<Rightarrow> Responded (error_response 401 ''User not found.'')
              | Some uid \<Rightarrow>
                  (case findById users uid of
                     None \<Rightarrow> Responded (error_response 401 ''User not found.'')
                   | Some u \<Rightarrow> Next (public_of u))))"
proof -
  from assms have sw: "startsWith s ''Bearer ''" by (simp only: startsWith_Bearer)
  from assms have ne: "\<not> falsy (Some s)" by (auto simp: falsy_def)
  show ?thesis
    unfolding authenticate_def using sw ne bearer_piece[OF sw]
    by (simp only: Let_def option.sel simp_thms if_False if_True)
qed

lemma authenticate_no_token:
  "h = None \<or> (\<exists>s. h = Some s \<and> take 7 s \<noteq> ''Bearer '') \<Longrightarrow>
     authenticate e users h now =
       Responded (error_response 401 ''Authentication required. No token provided.'')"
  unfolding authenticate_def by (auto simp: falsy_def startsWith_Bearer)

subsection \<open>The instance of the packages\<close>


subsection \<open>The session handlers\<close>

lemma hasRefreshToken_zero: "ids_sequential users \<Longrightarrow> \<not> hasRefreshToken users 0 tok"
  by (simp add: hasRefreshToken_def ids_sequential_no_zero)

lemma logout_supplied:
  "tok \<noteq> [] \<Longrightarrow>
     logout e users (Some tok) now =
       (\<lparr>statusCode = 200, status = ''success'',
         message = Some ''Logged out successfully'', data = NoData\<rparr>,
        (case jwt_verify e tok (secret (refreshToken (jwtConfig e))) now of
           Inr uid \<Rightarrow> (if hasRefreshToken users uid tok \<and> uid \<noteq> 0
                        then removeRefreshToken users uid tok else users)
         | Inl err \<Rightarrow> users))"
  by (simp add: logout_def falsy_def verifyRefreshToken_def Let_def split: sum.splits)

lemma refresh_supplied:
  "tok \<noteq> [] \<Longrightarrow>
     refresh_token e users (Some tok) now =
       (case jwt_verify e tok (secret (refreshToken (jwtConfig e))) now of
          Inr uid \<Rightarrow>
            (if hasRefreshToken users uid tok
             then (case generateAccessToken e uid now of
                     None \<Rightarrow> (error_response 500 ''Internal server error'', users)
                   | Some at \<Rightarrow> (\<lparr>statusCode = 200, status = ''success'', message = None,
                                  data = AccessTokenData at\<rparr>, users))
             else (error_response 401 ''Invalid refresh token'', users))
        | Inl err \<Rightarrow>
            (if err = TokenExpiredError
             then (error_response 401 ''Refresh token has expired. Please login again.'', users)
             else (error_response 401 ''Invalid refresh token'', users)))"
  by (simp add: refresh_token_def falsy_def verifyRefreshToken_def Let_def split: sum.splits)

lemma logout_removes:
  assumes "tok \<noteq> []"
    and "jwt_verify e tok (secret (refreshToken (jwtConfig e))) now = Inr uid"
    and "uid \<noteq> 0 \<or> ids_sequential users"
  shows "\<not> hasRefreshToken (snd (logout e users (Some tok) now)) uid tok"
proof (cases "hasRefreshToken users uid tok")
  case True
  with assms(3) have "uid \<noteq> 0" using hasRefreshToken_zero by blast
  with True assms(1,2) show ?thesis
    by (simp add: logout_supplied hasRefreshToken_removeRefreshToken)
next
  case False
  with assms(1,2) show ?thesis by (simp add: logout_supplied)
qed


lemma create_duplicate:
  "\<exists>u\<in>set users. username u = uname \<or> email u = mail \<Longrightarrow>
     create e users uname mail pw = (Inl UserAlreadyExists, users)"
  by (simp add: create_def create_check_duplicate)

lemma login_unknown_user:
  "a \<noteq> [] \<Longrightarrow> \<not> falsy_value pw \<Longrightarrow> findByCredentials users a = None \<Longrightarrow>
     login e users (Str a) pw now = (error_response 401 ''Invalid credentials'', users)"
  by (simp add: login_def)

lemma login_wrong_password:
  "a \<noteq> [] \<Longrightarrow> \<not> falsy_value pw \<Longrightarrow> findByCredentials users a = Some u \<Longrightarrow>
     comparePassword e pw (password u) = Some False \<Longrightarrow>
     login e users (Str a) pw now = (error_response 401 ''Invalid credentials'', users)"
  by (simp add: login_def)

lemma login_compare_rejects:
  "a \<noteq> [] \<Longrightarrow> \<not> falsy_value pw \<Longrightarrow> findByCredentials users a = Some u \<Longrightarrow>
     comparePassword e pw (password u) = None \<Longrightarrow>
     login e users (Str a) pw now = (error_response 500 ''Internal server error'', users)"
  by (simp add: login_def)

section \<open>The claims\<close>

text \<open>
  Claim C1, as amended. A non-empty refresh token that verifies under the refresh secret
  (signature good, not expired) but is not in the decoded subject's stored list is
  refused with status 401 and the message \<open>Invalid refresh token\<close>: the very response a
  token with a bad signature gets, and a different one from the response to an expired
  token. The handlers have no separate outcome for a revoked token. In particular,
  after a logout with a token that verified, a refresh with that token is refused with
  this response, in every store whose ids start at 1.
\<close>

theorem revoked_refresh_token_is_invalid:
  assumes "tok \<noteq> []"
    and "jwt_verify e tok (secret (refreshToken (jwtConfig e))) now = Inr uid"
  shows "(\<not> hasRefreshToken users uid tok \<longrightarrow>
            refresh_token e users (Some tok) now
              = (error_response 401 ''Invalid refresh token'', users))
       \<and> (\<forall>bad. bad \<noteq> [] \<longrightarrow>
             jwt_verify e bad (secret (refreshToken (jwtConfig e))) now
               = Inl JsonWebTokenError \<longrightarrow>
             refresh_token e users (Some bad) now
               = (error_response 401 ''Invalid refresh token'', users))
       \<and> error_response 401 ''Invalid refresh token''
           \<noteq> error_response 401 ''Refresh token has expired. Please login again.''
       \<and> (\<forall>t0. jwt_verify e tok (secret (refreshToken (jwtConfig e))) t0 = Inr uid \<longrightarrow>
             (uid \<noteq> 0 \<or> ids_sequential users) \<longrightarrow>
             refresh_token e (snd (logout e users (Some tok) t0)) (Some tok) now
               = (error_response 401 ''Invalid refresh token'',
                  snd (logout e users (Some tok) t0)))"
proof (intro conjI allI impI)
  assume "\<not> hasRefreshToken users uid tok"
  with assms show "refresh_token e users (Some tok) now
                     = (error_response 401 ''Invalid refresh token'', users)"
    by (simp add: refresh_supplied)
next
  fix bad :: string
  assume "bad \<noteq> []"
    and "jwt_verify e bad (secret (refreshToken (jwtConfig e))) now = Inl JsonWebTokenError"
  then show "refresh_token e users (Some bad) now
               = (error_response 401 ''Invalid refresh token'', users)"
    by (simp add: refresh_supplied)
next
  show "error_response 401 ''Invalid refresh token''
          \<noteq> error_response 401 ''Refresh token has expired. Please login again.''"
    by (simp add: error_response_def)
next
  fix t0
  assume "jwt_verify e tok (secret (refreshToken (jwtConfig e))) t0 = Inr uid"
    and "uid \<noteq> 0 \<or> ids_sequential users"
  with assms(1) have "\<not> hasRefreshToken (snd (logout e users (Some tok) t0)) uid tok"
    by (rule logout_removes)
  with assms show "refresh_token e (snd (logout e users (Some tok) t0)) (Some tok) now
                     = (error_response 401 ''Invalid refresh token'',
                        snd (logout e users (Some tok) t0))"
    by (simp add: refresh_supplied)
qed

theorem revoked_refresh_token_is_invalid_witness:
  "refresh_token ref_env alice0 (Some ''ueeee.R'') 0
     = (error_response 401 ''Invalid refresh token'', alice0)
   \<and> refresh_token ref_env alice0 (Some ''garbage'') 0
     = (error_response 401 ''Invalid refresh token'', alice0)
   \<and> refresh_token ref_env (snd (logout ref_env alice1 (Some ''ueeee.R'') 0))
        (Some ''ueeee.R'') 0
     = (error_response 401 ''Invalid refresh token'',
        snd (logout ref_env alice1 (Some ''ueeee.R'') 0))"
proof -
  have n: "''ueeee.R'' \<noteq> []" "''garbage'' \<noteq> []" by simp_all
  have v: "jwt_verify ref_env ''ueeee.R'' (secret (refreshToken (jwtConfig ref_env))) 0 = Inr 1"
    by code_simp
  have g: "jwt_verify ref_env ''garbage'' (secret (refreshToken (jwtConfig ref_env))) 0
             = Inl JsonWebTokenError"
    by code_simp
  have h: "\<not> hasRefreshToken alice0 1 ''ueeee.R''" by code_simp
  have z: "(1::int) \<noteq> 0" by simp
  from revoked_refresh_token_is_invalid[OF n(1) v, of alice0]
    revoked_refresh_token_is_invalid[OF n(1) v, of alice1] n(2) g h z v
  show ?thesis by metis
qed

text \<open>
  Claim C1 as first stated fails: in the store left by register, login and logout, the
  logged-out token still verifies and is absent from its subject's list, and the refresh
  handler answers it exactly as it answers a token that does not verify.
\<close>

theorem revoked_outcome_counterexample:
  "jwt_verify ref_env ''ueeee.R'' (secret (refreshToken (jwtConfig ref_env))) 0 = Inr 1
   \<and> \<not> hasRefreshToken alice2 1 ''ueeee.R''
   \<and> jwt_verify ref_env ''garbage'' (secret (refreshToken (jwtConfig ref_env))) 0
       = Inl JsonWebTokenError
   \<and> fst (refresh_token ref_env alice2 (Some ''ueeee.R'') 0)
       = error_response 401 ''Invalid refresh token''
   \<and> fst (refresh_token ref_env alice2 (Some ''garbage'') 0)
       = error_response 401 ''Invalid refresh token''"
  by code_simp

text \<open>
  Claim C2. \<open>addRefreshToken(userId, token)\<close> leaves the store as it is when no user has
  that id. Otherwise it rewrites only the first user with that id: the token is appended
  to that user's list, after the front entry has been dropped when the list already held
  5 or more. In every store reached by a run from the empty store, no user holds more
  than 5 refresh tokens.
\<close>

theorem addRefreshToken_bounded_fifo:
  "(findById users i = None \<longrightarrow> addRefreshToken users i t = users)
   \<and> (\<forall>u. findById users i = Some u \<longrightarrow>
          (\<exists>k<length users. users ! k = u \<and> (\<forall>j<k. id' (users ! j) \<noteq> i) \<and>
             addRefreshToken users i t =
               users[k := u\<lparr>refreshTokens :=
                          (if 5 \<le> length (refreshTokens u)
                           then tl (refreshTokens u) else refreshTokens u) @ [t]\<rparr>]))
   \<and> (\<forall>u\<in>set (run e ops). length (refreshTokens u) \<le> 5)"
proof (intro conjI allI impI)
  assume "findById users i = None"
  then show "addRefreshToken users i t = users" by (rule addRefreshToken_None)
next
  fix u
  assume f: "findById users i = Some u"
  then have "List.find (\<lambda>u. id' u = i) users = Some u" by (simp add: findById_def)
  from write_first_nth[OF this]
  show "\<exists>k<length users. users ! k = u \<and> (\<forall>j<k. id' (users ! j) \<noteq> i) \<and>
          addRefreshToken users i t =
            users[k := u\<lparr>refreshTokens :=
                       (if 5 \<le> length (refreshTokens u)
                        then tl (refreshTokens u) else refreshTokens u) @ [t]\<rparr>]"
    unfolding addRefreshToken_Some[OF f] by blast
next
  show "\<forall>u\<in>set (run e ops). length (refreshTokens u) \<le> 5"
    by (rule tokens_bounded_run)
qed

theorem addRefreshToken_bounded_fifo_witness:
  "addRefreshToken alice0 7 ''t'' = alice0
   \<and> addRefreshToken
         [\<lparr>id' = 1, username = ''alice'', email = ''a@x.com'', password = ''#secret1'',
           refreshTokens = [''a'', ''b'', ''c'', ''d'', ''e'']\<rparr>] 1 ''f''
       = [\<lparr>id' = 1, username = ''alice'', email = ''a@x.com'', password = ''#secret1'',
           refreshTokens = [''b'', ''c'', ''d'', ''e'', ''f'']\<rparr>]
   \<and> length (refreshTokens (hd alice1)) \<le> 5"
proof -
  let ?u = "\<lparr>id' = 1, username = ''alice'', email = ''a@x.com'', password = ''#secret1'',
             refreshTokens = [''a'', ''b'', ''c'', ''d'', ''e'']\<rparr>"
  have a: "findById alice0 7 = None" by code_simp
  have b: "findById [?u] 1 = Some ?u" by (simp add: findById_def)
  have c: "hd alice1 \<in> set alice1" by code_simp
  have "addRefreshToken alice0 7 ''t'' = alice0"
    using addRefreshToken_bounded_fifo[of alice0 7 "''t''" ref_env "[]"] a by blast
  moreover have "addRefreshToken [?u] 1 ''f''
       = [?u\<lparr>refreshTokens := [''b'', ''c'', ''d'', ''e'', ''f'']\<rparr>]"
    using addRefreshToken_bounded_fifo[of "[?u]" 1 "''f''" ref_env "[]"] b by auto
  moreover have "length (refreshTokens (hd alice1)) \<le> 5"
    using addRefreshToken_bounded_fifo[of "[]" 0 "[]" ref_env
        "[Create ''alice'' ''a@x.com'' ''secret1'',
          Login (Str ''alice'') (Str ''secret1'') 0]"] c
    unfolding alice1_def by blast
  ultimately show ?thesis by simp
qed







text \<open>
  Claim C5. For every non-empty token string, logout answers 200
  \<open>Logged out successfully\<close>, the same response for every token and every store. When
  the token verifies and is in its subject's list, the store becomes
  \<open>removeRefreshToken\<close> of that subject and token, after which the token is no longer in
  the list; when the token is not valid the store stays as it is. A second logout with
  the same token gives the same response and changes nothing further.
\<close>

theorem logout_always_succeeds:
  assumes "tok \<noteq> []"
  shows "fst (logout e users (Some tok) now)
           = \<lparr>statusCode = 200, status = ''success'',
              message = Some ''Logged out successfully'', data = NoData\<rparr>
       \<and> (\<forall>uid. jwt_verify e tok (secret (refreshToken (jwtConfig e))) now = Inr uid \<longrightarrow>
             hasRefreshToken users uid tok \<longrightarrow> (uid \<noteq> 0 \<or> ids_sequential users) \<longrightarrow>
             snd (logout e users (Some tok) now) = removeRefreshToken users uid tok
             \<and> \<not> hasRefreshToken (snd (logout e users (Some tok) now)) uid tok)
       \<and> (\<not> valid (verifyRefreshToken e users tok now) \<longrightarrow>
             snd (logout e users (Some tok) now) = users)
       \<and> logout e (snd (logout e users (Some tok) now)) (Some tok) now
           = (\<lparr>statusCode = 200, status = ''success'',
               message = Some ''Logged out successfully'', data = NoData\<rparr>,
              snd (logout e users (Some tok) now))
       \<and> (\<forall>tok' users' now'. tok' \<noteq> [] \<longrightarrow>
             fst (logout e users' (Some tok') now') = fst (logout e users (Some tok) now))"
proof (intro conjI allI impI)
  show "fst (logout e users (Some tok) now)
           = \<lparr>statusCode = 200, status = ''success'',
              message = Some ''Logged out successfully'', data = NoData\<rparr>"
    using assms by (simp add: logout_supplied)
next
  fix uid
  assume v: "jwt_verify e tok (secret (refreshToken (jwtConfig e))) now = Inr uid"
    and h: "hasRefreshToken users uid tok" and z: "uid \<noteq> 0 \<or> ids_sequential users"
  from h z have "uid \<noteq> 0" using hasRefreshToken_zero by blast
  with v h assms show "snd (logout e users (Some tok) now) = removeRefreshToken users uid tok"
    by (simp add: logout_supplied)
  from assms v z show "\<not> hasRefreshToken (snd (logout e users (Some tok) now)) uid tok"
    by (rule logout_removes)
next
  assume "\<not> valid (verifyRefreshToken e users tok now)"
  then show "snd (logout e users (Some tok) now) = users"
    using assms
    by (auto simp: logout_supplied verifyRefreshToken_def split: sum.splits if_splits)
next
  show "logout e (snd (logout e users (Some tok) now)) (Some tok) now
           = (\<lparr>statusCode = 200, status = ''success'',
               message = Some ''Logged out successfully'', data = NoData\<rparr>,
              snd (logout e users (Some tok) now))"
    using assms
    by (auto simp: logout_supplied hasRefreshToken_removeRefreshToken split: sum.splits)
next
  fix tok' :: string and users' now'
  assume "tok' \<noteq> []"
  with assms show "fst (logout e users' (Some tok') now') = fst (logout e users (Some tok) now)"
    by (simp add: logout_supplied)
qed

theorem logout_always_succeeds_witness:
  "fst (logout ref_env alice1 (Some ''ueeee.R'') 0)
     = \<lparr>statusCode = 200, status = ''success'',
        message = Some ''Logged out successfully'', data = NoData\<rparr>
   \<and> snd (logout ref_env alice1 (Some ''ueeee.R'') 0) = alice0
   \<and> \<not> hasRefreshToken (snd (logout ref_env alice1 (Some ''ueeee.R'') 0)) 1 ''ueeee.R''
   \<and> fst (logout ref_env alice0 (Some ''garbage'') 9)
       = fst (logout ref_env alice1 (Some ''ueeee.R'') 0)"
proof -
  have n: "''ueeee.R'' \<noteq> []" "''garbage'' \<noteq> []" by simp_all
  have v: "jwt_verify ref_env ''ueeee.R'' (secret (refreshToken (jwtConfig ref_env))) 0 = Inr 1"
    by code_simp
  have h: "hasRefreshToken alice1 1 ''ueeee.R''" by code_simp
  have r: "removeRefreshToken alice1 1 ''ueeee.R'' = alice0" by code_simp
  have z: "(1::int) \<noteq> 0" by simp
  from logout_always_succeeds[OF n(1), of ref_env alice1 0] v h z r n(2)
  show ?thesis by metis
qed

text \<open>
  Claim C6 fails on the code. With a password field that is truthy but not a string,
  a login naming no stored user is answered 401 \<open>Invalid credentials\<close>, while a login
  naming a stored user reaches \<open>bcrypt.compare\<close>, whose promise rejects, and is answered
  500 \<open>Internal server error\<close>: the two failures tell whether the user exists. (With a
  string password both are answered 401, lemmas \<open>login_unknown_user\<close> and
  \<open>login_wrong_password\<close>.)
\<close>

theorem login_nonstring_password:
  "login ref_env alice1 (Str ''ghost'') NonString 0
     = (error_response 401 ''Invalid credentials'', alice1)
   \<and> login ref_env alice1 (Str ''alice'') NonString 0
     = (error_response 500 ''Internal server error'', alice1)"
  by code_simp

text \<open>
  Claim C7 fails on the code. \<open>User.create\<close> refuses a username or email that a stored
  user has at the time of its check (lemma \<open>create_duplicate\<close>), but the check and the
  push are separated by \<open>await bcrypt.hash\<close>: of two overlapping calls with the same
  username and email both pass the check and both push, and the store holds two users
  sharing a username and an email.
\<close>

theorem create_overlapping_calls:
  "bob_twice =
     [\<lparr>id' = 1, username = ''bob'', email = ''b@x.com'', password = ''#secret1'',
       refreshTokens = []\<rparr>,
      \<lparr>id' = 2, username = ''bob'', email = ''b@x.com'', password = ''#secret2'',
       refreshTokens = []\<rparr>]
   \<and> \<not> distinct (map username bob_twice)
   \<and> \<not> distinct (map email bob_twice)"
  by code_simp

text \<open>
  Claim C8, as amended. The middleware computes the guard in four ordered steps: no
  header, or a header that does not begin with \<open>Bearer\<close> and a space, is rejected for
  want of a token; otherwise the token is what lies between that space and the next one
  (the rest of the header is ignored), and an expired token is rejected as expired and
  any other verification failure as invalid; otherwise an id that finds no stored user
  is rejected; otherwise the request goes on with the id, username and email of the
  user found. The four rejections and the identities are reported by pairwise different
  outcomes.
\<close>

theorem authenticate_state_machine:
  "authenticate e users h now = outcome_of (auth_guard second_piece e users h now)
   \<and> inj outcome_of"
proof
  show "authenticate e users h now = outcome_of (auth_guard second_piece e users h now)"
  proof (cases "second_piece h")
    case None
    then have "h = None \<or> (\<exists>s. h = Some s \<and> take 7 s \<noteq> ''Bearer '')"
      by (auto simp: second_piece_def split: option.splits if_splits)
    then show ?thesis
      using None by (simp add: authenticate_no_token auth_guard_def)
  next
    case (Some tok)
    then obtain s where s: "h = Some s" "take 7 s = ''Bearer ''"
      "tok = takeWhile (\<lambda>c. c \<noteq> CHR '' '') (drop 7 s)"
      by (auto simp: second_piece_def split: option.splits if_splits)
    show ?thesis
    proof (cases "jwt_verify e tok (secret (accessToken (jwtConfig e))) now")
      case (Inl err)
      then show ?thesis
        using Some s
        by (cases err)
           (simp_all add: authenticate_token auth_guard_def verifyAccessToken_def)
    next
      case (Inr uid)
      then show ?thesis
        using Some s
        by (simp add: authenticate_token auth_guard_def verifyAccessToken_def
              findById_def public_of_def split: option.splits)
    qed
  qed
next
  show "inj outcome_of"
  proof (rule injI)
    fix x y
    assume "outcome_of x = outcome_of y"
    then show "x = y"
      by (cases x; cases y; simp add: error_response_def)
         (rename_tac r r', case_tac r; case_tac r'; simp)
  qed
qed

theorem authenticate_state_machine_witness:
  "authenticate ref_env alice1 (Some ''Bearer ue.A'') 0
     = Next \<lparr>id' = 1, username = ''alice'', email = ''a@x.com''\<rparr>
   \<and> authenticate ref_env alice1 (Some ''Bearer ue.A junk'') 0
     = Next \<lparr>id' = 1, username = ''alice'', email = ''a@x.com''\<rparr>
   \<and> authenticate ref_env alice1 (Some ''Bearer  ue.A'') 0 = outcome_of (Rejected TokenInvalid)
   \<and> authenticate ref_env alice1 (Some ''Bearer ue.A'') 1 = outcome_of (Rejected TokenExpired)
   \<and> authenticate ref_env alice1 (Some ''Bearer ueeee.R'') 0 = outcome_of (Rejected TokenInvalid)
   \<and> authenticate ref_env alice1 (Some ''Bearer uue.A'') 0 = outcome_of (Rejected UserNotFound)
   \<and> authenticate ref_env alice1 (Some ''bearer ue.A'') 0 = outcome_of (Rejected NoToken)
   \<and> authenticate ref_env alice1 None 0 = outcome_of (Rejected NoToken)"
proof -
  have "auth_guard second_piece ref_env alice1 (Some ''Bearer ue.A'') 0
          = Authenticated \<lparr>id' = 1, username = ''alice'', email = ''a@x.com''\<rparr>"
    "auth_guard second_piece ref_env alice1 (Some ''Bearer ue.A junk'') 0
          = Authenticated \<lparr>id' = 1, username = ''alice'', email = ''a@x.com''\<rparr>"
    "auth_guard second_piece ref_env alice1 (Some ''Bearer  ue.A'') 0 = Rejected TokenInvalid"
    "auth_guard second_piece ref_env alice1 (Some ''Bearer ue.A'') 1 = Rejected TokenExpired"
    "auth_guard second_piece ref_env alice1 (Some ''Bearer ueeee.R'') 0 = Rejected TokenInvalid"
    "auth_guard second_piece ref_env alice1 (Some ''Bearer uue.A'') 0 = Rejected UserNotFound"
    "auth_guard second_piece ref_env alice1 (Some ''bearer ue.A'') 0 = Rejected NoToken"
    "auth_guard second_piece ref_env alice1 None 0 = Rejected NoToken"
    by code_simp+
  then show ?thesis
    using authenticate_state_machine[of ref_env alice1 "Some ''Bearer ue.A''" 0]
      authenticate_state_machine[of ref_env alice1 "Some ''Bearer ue.A junk''" 0]
      authenticate_state_machine[of ref_env alice1 "Some ''Bearer  ue.A''" 0]
      authenticate_state_machine[of ref_env alice1 "Some ''Bearer ue.A''" 1]
      authenticate_state_machine[of ref_env alice1 "Some ''Bearer ueeee.R''" 0]
      authenticate_state_machine[of ref_env alice1 "Some ''Bearer uue.A''" 0]
      authenticate_state_machine[of ref_env alice1 "Some ''bearer ue.A''" 0]
      authenticate_state_machine[of ref_env alice1 None 0]
    by (simp only: outcome_of.simps)
qed

text \<open>
  Claim C8 as first stated fails: a header with text after the token is not a
  well-formed bearer header, and what follows \<open>Bearer\<close> in it does not verify, yet the
  middleware does not reject it: it authenticates the request on the first piece.
\<close>

theorem bearer_trailing_text_counterexample:
  "bearer_credential (Some ''Bearer ue.A junk'') = Some ''ue.A junk''
   \<and> jwt_verify ref_env ''ue.A junk'' (secret (accessToken (jwtConfig ref_env))) 0
       = Inl JsonWebTokenError
   \<and> auth_guard bearer_credential ref_env alice1 (Some ''Bearer ue.A junk'') 0
       = Rejected TokenInvalid
   \<and> authenticate ref_env alice1 (Some ''Bearer ue.A junk'') 0
       = Next \<lparr>id' = 1, username = ''alice'', email = ''a@x.com''\<rparr>"
  by code_simp

text \<open>
  Claim C9. \<open>removeRefreshToken(userId, token)\<close> leaves the store as it is when no user
  has that id or when the token is not in that user's list. Otherwise it rewrites only
  the first user with that id, and only the field \<open>refreshTokens\<close>, which keeps, in order,
  exactly the entries different from the token.
\<close>

theorem removeRefreshToken_filters:
  "(findById users i = None \<longrightarrow> removeRefreshToken users i t = users)
   \<and> (\<forall>u. findById users i = Some u \<longrightarrow> t \<notin> set (refreshTokens u) \<longrightarrow>
          removeRefreshToken users i t = users)
   \<and> (\<forall>u. findById users i = Some u \<longrightarrow>
          (\<exists>k<length users. users ! k = u \<and> (\<forall>j<k. id' (users ! j) \<noteq> i) \<and>
             removeRefreshToken users i t =
               users[k := u\<lparr>refreshTokens := filter (\<lambda>x. x \<noteq> t) (refreshTokens u)\<rparr>]))"
proof (intro conjI allI impI)
  assume "findById users i = None"
  then show "removeRefreshToken users i t = users" by (rule removeRefreshToken_None)
next
  fix u
  assume f: "findById users i = Some u" and n: "t \<notin> set (refreshTokens u)"
  from n have "filter (\<lambda>x. x \<noteq> t) (refreshTokens u) = refreshTokens u"
    by (auto simp: filter_id_conv)
  then have "u\<lparr>refreshTokens := filter (\<lambda>x. x \<noteq> t) (refreshTokens u)\<rparr> = u" by simp
  moreover from f have "write_first (\<lambda>u. id' u = i) u users = users"
    unfolding findById_def by (rule write_first_same)
  ultimately show "removeRefreshToken users i t = users"
    by (simp add: removeRefreshToken_Some[OF f])
next
  fix u
  assume f: "findById users i = Some u"
  then have "List.find (\<lambda>u. id' u = i) users = Some u" by (simp add: findById_def)
  from write_first_nth[OF this]
  show "\<exists>k<length users. users ! k = u \<and> (\<forall>j<k. id' (users ! j) \<noteq> i) \<and>
          removeRefreshToken users i t =
            users[k := u\<lparr>refreshTokens := filter (\<lambda>x. x \<noteq> t) (refreshTokens u)\<rparr>]"
    unfolding removeRefreshToken_Some[OF f] by blast
qed

theorem removeRefreshToken_filters_witness:
  "removeRefreshToken alice1 7 ''ueeee.R'' = alice1
   \<and> removeRefreshToken alice1 1 ''other'' = alice1
   \<and> removeRefreshToken
         [\<lparr>id' = 1, username = ''alice'', email = ''a@x.com'', password = ''#secret1'',
           refreshTokens = [''a'', ''b'', ''a'', ''c'']\<rparr>] 1 ''a''
       = [\<lparr>id' = 1, username = ''alice'', email = ''a@x.com'', password = ''#secret1'',
           refreshTokens = [''b'', ''c'']\<rparr>]"
proof -
  let ?u = "\<lparr>id' = 1, username = ''alice'', email = ''a@x.com'', password = ''#secret1'',
             refreshTokens = [''a'', ''b'', ''a'', ''c'']\<rparr>"
  have a: "findById alice1 7 = None" by code_simp
  have b: "findById alice1 1 = Some (hd alice1)" by code_simp
  have b': "''other'' \<notin> set (refreshTokens (hd alice1))" by code_simp
  have c: "findById [?u] 1 = Some ?u" by (simp add: findById_def)
  have "removeRefreshToken alice1 7 ''ueeee.R'' = alice1"
    using removeRefreshToken_filters[of alice1 7 "''ueeee.R''"] a by blast
  moreover have "removeRefreshToken alice1 1 ''other'' = alice1"
    using removeRefreshToken_filters[of alice1 1 "''other''"] b b' by blast
  moreover have "removeRefreshToken [?u] 1 ''a'' = [?u\<lparr>refreshTokens := [''b'', ''c'']\<rparr>]"
    using removeRefreshToken_filters[of "[?u]" 1 "''a''"] c by auto
  ultimately show ?thesis by simp
qed

text \<open>
  Claim C10. With the field \<open>refreshToken\<close> missing or empty, both the logout and the
  refresh handler answer 400 \<open>Refresh token is required\<close> and leave the store as it is;
  logout answers 200 for the requests that carry a non-empty token.
\<close>

theorem missing_refresh_token_rejected:
  "logout e users None now = (error_response 400 ''Refresh token is required'', users)
   \<and> logout e users (Some []) now = (error_response 400 ''Refresh token is required'', users)
   \<and> refresh_token e users None now = (error_response 400 ''Refresh token is required'', users)
   \<and> refresh_token e users (Some []) now
       = (error_response 400 ''Refresh token is required'', users)
   \<and> statusCode (error_response 400 ''Refresh token is required'') = 400
   \<and> (\<forall>tok. tok \<noteq> [] \<longrightarrow> statusCode (fst (logout e users (Some tok) now)) = 200)"
  by (simp add: logout_def refresh_token_def falsy_def error_response_def Let_def)

theorem missing_refresh_token_rejected_witness:
  "logout ref_env alice1 None 0 = (error_response 400 ''Refresh token is required'', alice1)
   \<and> refresh_token ref_env alice1 (Some []) 0
       = (error_response 400 ''Refresh token is required'', alice1)
   \<and> statusCode (fst (logout ref_env alice1 (Some ''x'') 0)) = 200"
  using missing_refresh_token_rejected[of ref_env alice1 0] by simp

end
